theory Spec2Isabelle
  imports Main
begin

section \<open>The memory statistics aggregator of \<^verbatim>\<open>td/telegram/MemoryManager.cpp\<close>\<close>

subsection \<open>Data model\<close>

text \<open>
  \<^verbatim>\<open>MemoryStats\<close> is the value delivered to the caller; its only member is the string
  \<^verbatim>\<open>debug\<close>.
\<close>

record MemoryStats =
  debug :: string

text \<open>
  The managers of \<^verbatim>\<open>Td\<close> whose \<^verbatim>\<open>memory_stats\<close> is called by
  \<^verbatim>\<open>print_managers_memory_stats\<close>. The constructor \<open>file_manager\<close> stands for the member
  \<^verbatim>\<open>td_->file_manager_\<close>, and so on: a constant of the logic cannot end in an underscore,
  so the trailing underscore of the member is dropped in the constructor and kept in
  \<open>manager_name\<close> below.
\<close>

datatype manager =
    file_manager | business_connection_manager | channel_recommendation_manager
  | chat_manager | connection_state_manager | inline_message_manager
  | online_manager | promo_data_manager | star_manager
  | terms_of_service_manager | user_manager | account_manager
  | animations_manager | attach_menu_manager | audios_manager
  | auth_manager | autosave_manager | background_manager
  | boost_manager | bot_info_manager | business_manager
  | callback_queries_manager | common_dialog_manager | country_info_manager
  | dialog_action_manager | dialog_filter_manager | dialog_invite_link_manager
  | dialog_manager | dialog_participant_manager | documents_manager
  | download_manager | file_reference_manager | forum_topic_manager
  | game_manager | group_call_manager | inline_queries_manager
  | link_manager | message_import_manager | messages_manager
  | notification_manager | notification_settings_manager | option_manager
  | people_nearby_manager | poll_manager | privacy_manager
  | quick_reply_manager | reaction_manager | saved_messages_manager
  | sponsored_message_manager | statistics_manager | stickers_manager
  | story_manager | theme_manager | time_zone_manager
  | top_dialog_manager | transcription_manager | translation_manager
  | updates_manager | video_notes_manager | videos_manager
  | voice_notes_manager | web_pages_manager

text \<open>
  The \<^verbatim>\<open>memory_stats(vector<string> &output)\<close> methods of the managers are defined in
  other translation units, so they are a parameter of the model. A provider receives the
  manager addressed, the state of \<^verbatim>\<open>Td\<close> (all managers are reached through
  \<^verbatim>\<open>td_\<close> and may read one another) and the output vector, which it gets by reference.
  It returns the vector and the state as it leaves them, or \<open>None\<close> when the call does not
  complete normally (an exception or an abort inside the manager).
\<close>

type_synonym 'td provider =
  "manager \<Rightarrow> 'td \<Rightarrow> string list \<Rightarrow> (string list \<times> 'td) option"

datatype error = ProviderFailed manager

text \<open>
  The state a member function of \<^verbatim>\<open>MemoryManager\<close> works on: the object behind
  \<^verbatim>\<open>td_\<close>, the member \<^verbatim>\<open>parent_\<close> (\<open>None\<close> once it has been reset), and a log of the
  calls made into the managers, each with the output vector that was passed to it. The log
  is not a variable of the program; it records what the program does.
\<close>

record 'td state =
  td :: 'td
  parent :: "nat option"
  calls :: "(manager \<times> string list) list"

text \<open>A statement of a member function acts on the local vector \<^verbatim>\<open>output\<close> and the state.\<close>

type_synonym 'td conf = "string list \<times> 'td state"

text \<open>
  A statement either goes through, or it is cut short by a failure: then the error comes
  with the state in which the failure occurred, and nothing after the statement is run.
\<close>

type_synonym 'td stmt = "'td conf \<Rightarrow> (error \<times> 'td state) + 'td conf"

subsection \<open>Statements\<close>

text \<open>\<^verbatim>\<open>output.push_back(x)\<close>\<close>

definition push_back :: "string \<Rightarrow> 'td stmt" where
  "push_back x = (\<lambda>(output, s). Inr (output @ [x], s))"

text \<open>
  \<^verbatim>\<open>td_->m->memory_stats(output)\<close>: the call is not guarded, so a provider that fails ends
  the calling function as well. The call is logged in both cases; when it fails, the state
  of \<^verbatim>\<open>Td\<close> is kept as it was when the call was made.
\<close>

definition memory_stats :: "'td provider \<Rightarrow> manager \<Rightarrow> 'td stmt" where
  "memory_stats ms m = (\<lambda>(output, s).
     case ms m (td s) output of
       None \<Rightarrow> Inl (ProviderFailed m, s\<lparr>calls := calls s @ [(m, output)]\<rparr>)
     | Some (output', td') \<Rightarrow>
         Inr (output', s\<lparr>td := td', calls := calls s @ [(m, output)]\<rparr>))"

text \<open>Statements in sequence; the first failure ends the sequence.\<close>

fun seq :: "'td stmt list \<Rightarrow> 'td stmt" where
  "seq [] c = Inr c"
| "seq (f # fs) c = (case f c of Inl e \<Rightarrow> Inl e | Inr c' \<Rightarrow> seq fs c')"

subsection \<open>\<^verbatim>\<open>MemoryManager::print_managers_memory_stats\<close>\<close>

definition print_managers_memory_stats :: "'td provider \<Rightarrow> 'td stmt" where
  \<open>print_managers_memory_stats ms = seq [
     push_back ''"file_manager_":{'', memory_stats ms file_manager, push_back ''}'',
     push_back '','',
     push_back ''"business_connection_manager_":{'', memory_stats ms business_connection_manager, push_back ''}'',
     push_back '','',
     push_back ''"channel_recommendation_manager_":{'', memory_stats ms channel_recommendation_manager, push_back ''}'',
     push_back '','',
     push_back ''"chat_manager_":{'', memory_stats ms chat_manager, push_back ''}'',
     push_back '','',
     push_back ''"connection_state_manager_":{'', memory_stats ms connection_state_manager, push_back ''}'',
     push_back '','',
     push_back ''"inline_message_manager_":{'', memory_stats ms inline_message_manager, push_back ''}'',
     push_back '','',
     push_back ''"online_manager_":{'', memory_stats ms online_manager, push_back ''}'',
     push_back '','',
     push_back ''"promo_data_manager_":{'', memory_stats ms promo_data_manager, push_back ''}'',
     push_back '','',
     push_back ''"star_manager_":{'', memory_stats ms star_manager, push_back ''}'',
     push_back '','',
     push_back ''"terms_of_service_manager_":{'', memory_stats ms terms_of_service_manager, push_back ''}'',
     push_back '','',
     push_back ''"user_manager_":{'', memory_stats ms user_manager, push_back ''}'',
     push_back '','',
     push_back ''"account_manager_":{'', memory_stats ms account_manager, push_back ''}'',
     push_back '','',
     push_back ''"animations_manager_":{'', memory_stats ms animations_manager, push_back ''}'',
     push_back '','',
     push_back ''"attach_menu_manager_":{'', memory_stats ms attach_menu_manager, push_back ''}'',
     push_back '','',
     push_back ''"audios_manager_":{'', memory_stats ms audios_manager, push_back ''}'',
     push_back '','',
     push_back ''"auth_manager_":{'', memory_stats ms auth_manager, push_back ''}'',
     push_back '','',
     push_back ''"autosave_manager_":{'', memory_stats ms autosave_manager, push_back ''}'',
     push_back '','',
     push_back ''"background_manager_":{'', memory_stats ms background_manager, push_back ''}'',
     push_back '','',
     push_back ''"boost_manager_":{'', memory_stats ms boost_manager, push_back ''}'',
     push_back '','',
     push_back ''"bot_info_manager_":{'', memory_stats ms bot_info_manager, push_back ''}'',
     push_back '','',
     push_back ''"business_manager_":{'', memory_stats ms business_manager, push_back ''}'',
     push_back '','',
     push_back ''"callback_queries_manager_":{'', memory_stats ms callback_queries_manager, push_back ''}'',
     push_back '','',
     push_back ''"common_dialog_manager_":{'', memory_stats ms common_dialog_manager, push_back ''}'',
     push_back '','',
     push_back ''"country_info_manager_":{'', memory_stats ms country_info_manager, push_back ''}'',
     push_back '','',
     push_back ''"dialog_action_manager_":{'', memory_stats ms dialog_action_manager, push_back ''}'',
     push_back '','',
     push_back ''"dialog_filter_manager_":{'', memory_stats ms dialog_filter_manager, push_back ''}'',
     push_back '','',
     push_back ''"dialog_invite_link_manager_":{'', memory_stats ms dialog_invite_link_manager, push_back ''}'',
     push_back '','',
     push_back ''"dialog_manager_":{'', memory_stats ms dialog_manager, push_back ''}'',
     push_back '','',
     push_back ''"dialog_participant_manager_":{'', memory_stats ms dialog_participant_manager, push_back ''}'',
     push_back '','',
     push_back ''"documents_manager_":{'', memory_stats ms documents_manager, push_back ''}'',
     push_back '','',
     push_back ''"download_manager_":{'', memory_stats ms download_manager, push_back ''}'',
     push_back '','',
     push_back ''"file_reference_manager_":{'', memory_stats ms file_reference_manager, push_back ''}'',
     push_back '','',
     push_back ''"forum_topic_manager_":{'', memory_stats ms forum_topic_manager, push_back ''}'',
     push_back '','',
     push_back ''"game_manager_":{'', memory_stats ms game_manager, push_back ''}'',
     push_back '','',
     push_back ''"group_call_manager_":{'', memory_stats ms group_call_manager, push_back ''}'',
     push_back '','',
     push_back ''"inline_queries_manager_":{'', memory_stats ms inline_queries_manager, push_back ''}'',
     push_back '','',
     push_back ''"link_manager_":{'', memory_stats ms link_manager, push_back ''}'',
     push_back '','',
     push_back ''"message_import_manager_":{'', memory_stats ms message_import_manager, push_back ''}'',
     push_back '','',
     push_back ''"messages_manager_":{'', memory_stats ms messages_manager, push_back ''}'',
     push_back '','',
     push_back ''"notification_manager_":{'', memory_stats ms notification_manager, push_back ''}'',
     push_back '','',
     push_back ''"notification_settings_manager_":{'', memory_stats ms notification_settings_manager, push_back ''}'',
     push_back '','',
     push_back ''"option_manager_":{'', memory_stats ms option_manager, push_back ''}'',
     push_back '','',
     push_back ''"people_nearby_manager_":{'', memory_stats ms people_nearby_manager, push_back ''}'',
     push_back '','',
     push_back ''"poll_manager_":{'', memory_stats ms poll_manager, push_back ''}'',
     push_back '','',
     push_back ''"privacy_manager_":{'', memory_stats ms privacy_manager, push_back ''}'',
     push_back '','',
     push_back ''"quick_reply_manager_":{'', memory_stats ms quick_reply_manager, push_back ''}'',
     push_back '','',
     push_back ''"reaction_manager_":{'', memory_stats ms reaction_manager, push_back ''}'',
     push_back '','',
     push_back ''"saved_messages_manager_":{'', memory_stats ms saved_messages_manager, push_back ''}'',
     push_back '','',
     push_back ''"sponsored_message_manager_":{'', memory_stats ms sponsored_message_manager, push_back ''}'',
     push_back '','',
     push_back ''"statistics_manager_":{'', memory_stats ms statistics_manager, push_back ''}'',
     push_back '','',
     push_back ''"stickers_manager_":{'', memory_stats ms stickers_manager, push_back ''}'',
     push_back '','',
     push_back ''"story_manager_":{'', memory_stats ms story_manager, push_back ''}'',
     push_back '','',
     push_back ''"theme_manager_":{'', memory_stats ms theme_manager, push_back ''}'',
     push_back '','',
     push_back ''"time_zone_manager_":{'', memory_stats ms time_zone_manager, push_back ''}'',
     push_back '','',
     push_back ''"top_dialog_manager_":{'', memory_stats ms top_dialog_manager, push_back ''}'',
     push_back '','',
     push_back ''"transcription_manager_":{'', memory_stats ms transcription_manager, push_back ''}'',
     push_back '','',
     push_back ''"translation_manager_":{'', memory_stats ms translation_manager, push_back ''}'',
     push_back '','',
     push_back ''"updates_manager_":{'', memory_stats ms updates_manager, push_back ''}'',
     push_back '','',
     push_back ''"video_notes_manager_":{'', memory_stats ms video_notes_manager, push_back ''}'',
     push_back '','',
     push_back ''"videos_manager_":{'', memory_stats ms videos_manager, push_back ''}'',
     push_back '','',
     push_back ''"voice_notes_manager_":{'', memory_stats ms voice_notes_manager, push_back ''}'',
     push_back '','',
     push_back ''"web_pages_manager_":{'', memory_stats ms web_pages_manager, push_back ''}''
   ]\<close>

subsection \<open>\<^verbatim>\<open>MemoryManager::get_memory_stats\<close>\<close>

text \<open>\<^verbatim>\<open>accumulate(output.begin(), output.end(), s)\<close> of \<^verbatim>\<open><numeric>\<close>, on strings.\<close>

definition accumulate :: "string list \<Rightarrow> string \<Rightarrow> string" where
  "accumulate xs init = foldl (@) init xs"

text \<open>
  The promise is the result channel of one request. It is modelled by the list of values
  it has been given: \<^verbatim>\<open>promise.set_value(v)\<close> adds one. When a provider fails, the
  statement \<^verbatim>\<open>promise.set_value\<close> is not reached, and the function hands back the error, the
  promise as it received it, and the state at the failure.
\<close>

type_synonym 'td result =
  "(error \<times> MemoryStats list \<times> 'td state) + MemoryStats list \<times> 'td state"

definition set_value :: "'a \<Rightarrow> 'a list \<Rightarrow> 'a list" where
  "set_value v promise = promise @ [v]"

definition get_memory_stats ::
  "'td provider \<Rightarrow> bool \<Rightarrow> MemoryStats list \<Rightarrow> 'td state \<Rightarrow> 'td result"
where
  \<open>get_memory_stats ms full promise s =
     (case seq [
          push_back ''{'',
          push_back ''"memory_stats":{'',
          print_managers_memory_stats ms,
          push_back ''}'',
          push_back ''}''
        ] ([], s) of
        Inl (e, s') \<Rightarrow> Inl (e, promise, s')
      | Inr (output, s') \<Rightarrow>
          (let str = accumulate output [];
               val = \<lparr>debug = str\<rparr>
           in Inr (set_value val promise, s')))\<close>

subsection \<open>\<^verbatim>\<open>MemoryManager::get_current_state\<close> and the life cycle\<close>

text \<open>
  \<^verbatim>\<open>td_->auth_manager_->is_bot()\<close> is defined elsewhere; it is a parameter that reads the
  state of \<^verbatim>\<open>Td\<close>. Both branches leave \<^verbatim>\<open>updates\<close> as it is.
\<close>

definition get_current_state ::
  "('td \<Rightarrow> bool) \<Rightarrow> 'td state \<Rightarrow> 'u list \<Rightarrow> 'u list \<times> 'td state"
where
  "get_current_state is_bot s updates =
     (if is_bot (td s) then (updates, s) else (updates, s))"

definition start_up :: "'td state \<Rightarrow> 'td state" where
  "start_up s = s"

definition tear_down :: "'td state \<Rightarrow> 'td state" where
  "tear_down s = s\<lparr>parent := None\<rparr>"

subsection \<open>Vocabulary of the report\<close>

text \<open>The managers in the order in which \<^verbatim>\<open>print_managers_memory_stats\<close> addresses them.\<close>

definition registry :: "manager list" where
  "registry = [
     file_manager, business_connection_manager, channel_recommendation_manager,
     chat_manager, connection_state_manager, inline_message_manager,
     online_manager, promo_data_manager, star_manager,
     terms_of_service_manager, user_manager, account_manager,
     animations_manager, attach_menu_manager, audios_manager,
     auth_manager, autosave_manager, background_manager,
     boost_manager, bot_info_manager, business_manager,
     callback_queries_manager, common_dialog_manager, country_info_manager,
     dialog_action_manager, dialog_filter_manager, dialog_invite_link_manager,
     dialog_manager, dialog_participant_manager, documents_manager,
     download_manager, file_reference_manager, forum_topic_manager,
     game_manager, group_call_manager, inline_queries_manager,
     link_manager, message_import_manager, messages_manager,
     notification_manager, notification_settings_manager, option_manager,
     people_nearby_manager, poll_manager, privacy_manager,
     quick_reply_manager, reaction_manager, saved_messages_manager,
     sponsored_message_manager, statistics_manager, stickers_manager,
     story_manager, theme_manager, time_zone_manager,
     top_dialog_manager, transcription_manager, translation_manager,
     updates_manager, video_notes_manager, videos_manager,
     voice_notes_manager, web_pages_manager
   ]"

text \<open>The name of the member of \<^verbatim>\<open>Td\<close> that holds the manager.\<close>

fun manager_name :: "manager \<Rightarrow> string" where
  "manager_name file_manager = ''file_manager_''"
| "manager_name business_connection_manager = ''business_connection_manager_''"
| "manager_name channel_recommendation_manager = ''channel_recommendation_manager_''"
| "manager_name chat_manager = ''chat_manager_''"
| "manager_name connection_state_manager = ''connection_state_manager_''"
| "manager_name inline_message_manager = ''inline_message_manager_''"
| "manager_name online_manager = ''online_manager_''"
| "manager_name promo_data_manager = ''promo_data_manager_''"
| "manager_name star_manager = ''star_manager_''"
| "manager_name terms_of_service_manager = ''terms_of_service_manager_''"
| "manager_name user_manager = ''user_manager_''"
| "manager_name account_manager = ''account_manager_''"
| "manager_name animations_manager = ''animations_manager_''"
| "manager_name attach_menu_manager = ''attach_menu_manager_''"
| "manager_name audios_manager = ''audios_manager_''"
| "manager_name auth_manager = ''auth_manager_''"
| "manager_name autosave_manager = ''autosave_manager_''"
| "manager_name background_manager = ''background_manager_''"
| "manager_name boost_manager = ''boost_manager_''"
| "manager_name bot_info_manager = ''bot_info_manager_''"
| "manager_name business_manager = ''business_manager_''"
| "manager_name callback_queries_manager = ''callback_queries_manager_''"
| "manager_name common_dialog_manager = ''common_dialog_manager_''"
| "manager_name country_info_manager = ''country_info_manager_''"
| "manager_name dialog_action_manager = ''dialog_action_manager_''"
| "manager_name dialog_filter_manager = ''dialog_filter_manager_''"
| "manager_name dialog_invite_link_manager = ''dialog_invite_link_manager_''"
| "manager_name dialog_manager = ''dialog_manager_''"
| "manager_name dialog_participant_manager = ''dialog_participant_manager_''"
| "manager_name documents_manager = ''documents_manager_''"
| "manager_name download_manager = ''download_manager_''"
| "manager_name file_reference_manager = ''file_reference_manager_''"
| "manager_name forum_topic_manager = ''forum_topic_manager_''"
| "manager_name game_manager = ''game_manager_''"
| "manager_name group_call_manager = ''group_call_manager_''"
| "manager_name inline_queries_manager = ''inline_queries_manager_''"
| "manager_name link_manager = ''link_manager_''"
| "manager_name message_import_manager = ''message_import_manager_''"
| "manager_name messages_manager = ''messages_manager_''"
| "manager_name notification_manager = ''notification_manager_''"
| "manager_name notification_settings_manager = ''notification_settings_manager_''"
| "manager_name option_manager = ''option_manager_''"
| "manager_name people_nearby_manager = ''people_nearby_manager_''"
| "manager_name poll_manager = ''poll_manager_''"
| "manager_name privacy_manager = ''privacy_manager_''"
| "manager_name quick_reply_manager = ''quick_reply_manager_''"
| "manager_name reaction_manager = ''reaction_manager_''"
| "manager_name saved_messages_manager = ''saved_messages_manager_''"
| "manager_name sponsored_message_manager = ''sponsored_message_manager_''"
| "manager_name statistics_manager = ''statistics_manager_''"
| "manager_name stickers_manager = ''stickers_manager_''"
| "manager_name story_manager = ''story_manager_''"
| "manager_name theme_manager = ''theme_manager_''"
| "manager_name time_zone_manager = ''time_zone_manager_''"
| "manager_name top_dialog_manager = ''top_dialog_manager_''"
| "manager_name transcription_manager = ''transcription_manager_''"
| "manager_name translation_manager = ''translation_manager_''"
| "manager_name updates_manager = ''updates_manager_''"
| "manager_name video_notes_manager = ''video_notes_manager_''"
| "manager_name videos_manager = ''videos_manager_''"
| "manager_name voice_notes_manager = ''voice_notes_manager_''"
| "manager_name web_pages_manager = ''web_pages_manager_''"

text \<open>One entry of the report, \<^verbatim>\<open>"<name>":{<fragment>}\<close>, and the whole report.\<close>

definition entry :: "string \<times> string \<Rightarrow> string" where
  \<open>entry = (\<lambda>(name, fragment). ''"'' @ name @ ''":{'' @ fragment @ ''}'')\<close>

fun join_commas :: "string list \<Rightarrow> string" where
  "join_commas [] = []"
| "join_commas [x] = x"
| "join_commas (x # y # ys) = x @ '','' @ join_commas (y # ys)"

definition envelope :: "(string \<times> string) list \<Rightarrow> string" where
  \<open>envelope entries = ''{"memory_stats":{'' @ join_commas (map entry entries) @ ''}}''\<close>

text \<open>
  The statements that emit one entry, and those that emit a list of entries with a comma
  between two of them.
\<close>

definition entry_key :: "manager \<Rightarrow> string" where
  \<open>entry_key m = ''"'' @ manager_name m @ ''":{''\<close>

definition entry_steps :: "'td provider \<Rightarrow> manager \<Rightarrow> 'td stmt list" where
  "entry_steps ms m = [push_back (entry_key m), memory_stats ms m, push_back ''}'']"

fun assembler_steps :: "'td provider \<Rightarrow> manager list \<Rightarrow> 'td stmt list" where
  "assembler_steps ms [] = []"
| "assembler_steps ms [m] = entry_steps ms m"
| "assembler_steps ms (m # m' # rest) =
     entry_steps ms m @ [push_back '',''] @ assembler_steps ms (m' # rest)"


subsection \<open>Assumptions on the providers\<close>

text \<open>Every call of a provider returns.\<close>

definition completes :: "'td provider \<Rightarrow> bool" where
  "completes ms \<longleftrightarrow> (\<forall>m st out. ms m st out \<noteq> None)"

text \<open>Every call of a provider returns and leaves the state of \<^verbatim>\<open>Td\<close> as it found it.\<close>

definition read_only :: "'td provider \<Rightarrow> bool" where
  "read_only ms \<longleftrightarrow> (\<forall>m st out. \<exists>out'. ms m st out = Some (out', st))"

text \<open>
  A provider that returns, only appends to the vector it is given, and changes nothing
  else: \<open>frag m st\<close> is what manager \<open>m\<close> appends in state \<open>st\<close>.
\<close>

definition contract :: "'td provider \<Rightarrow> (manager \<Rightarrow> 'td \<Rightarrow> string list) \<Rightarrow> bool" where
  "contract ms frag \<longleftrightarrow> (\<forall>m st out. ms m st out = Some (out @ frag m st, st))"

text \<open>
  A provider that returns and whose effect on the state of \<^verbatim>\<open>Td\<close> is \<open>nxt m\<close>, whatever
  vector it is given.
\<close>

definition acts :: "'td provider \<Rightarrow> (manager \<Rightarrow> 'td \<Rightarrow> 'td) \<Rightarrow> manager \<Rightarrow> bool" where
  "acts ms nxt m \<longleftrightarrow> (\<forall>st out. \<exists>out'. ms m st out = Some (out', nxt m st))"

text \<open>
  A provider that returns and only appends to the vector it is given, and may change the
  state: \<open>frag m st\<close> is what manager \<open>m\<close> appends in state \<open>st\<close>, and \<open>nxt m st\<close> the state
  it leaves.
\<close>

definition appends ::
  "'td provider \<Rightarrow> (manager \<Rightarrow> 'td \<Rightarrow> string list) \<Rightarrow> (manager \<Rightarrow> 'td \<Rightarrow> 'td) \<Rightarrow> bool"
where
  "appends ms frag nxt \<longleftrightarrow> (\<forall>m st out. ms m st out = Some (out @ frag m st, nxt m st))"

text \<open>
  The entries of a list of such providers, called one after the other from state \<open>st\<close>:
  each fragment is taken in the state that the providers before it have left.
\<close>

fun fragments ::
  "(manager \<Rightarrow> 'td \<Rightarrow> string list) \<Rightarrow> (manager \<Rightarrow> 'td \<Rightarrow> 'td) \<Rightarrow> manager list \<Rightarrow> 'td
     \<Rightarrow> (string \<times> string) list"
where
  "fragments frag nxt [] st = []"
| "fragments frag nxt (m # l) st =
     (manager_name m, concat (frag m st)) # fragments frag nxt l (nxt m st)"

subsection \<open>Observations on a call\<close>

text \<open>The strings that the promise holds after the call.\<close>

definition delivered :: "'td result \<Rightarrow> string list" where
  "delivered r =
     (case r of Inl (e, promise, s) \<Rightarrow> map debug promise | Inr (promise, s) \<Rightarrow> map debug promise)"

text \<open>
  The calls into the managers that the log holds after a call that went through, with their
  arguments.
\<close>

definition invocations :: "'td result \<Rightarrow> (manager \<times> string list) list option" where
  "invocations r = (case r of Inl e \<Rightarrow> None | Inr (promise, s) \<Rightarrow> Some (calls s))"

text \<open>The failure that cut the call short, if any, and the state in which the call ended.\<close>

definition failure :: "'td result \<Rightarrow> error option" where
  "failure r = (case r of Inl (e, promise, s) \<Rightarrow> Some e | Inr (promise, s) \<Rightarrow> None)"

definition final_state :: "'td result \<Rightarrow> 'td state" where
  "final_state r = (case r of Inl (e, promise, s) \<Rightarrow> s | Inr (promise, s) \<Rightarrow> s)"

subsection \<open>Example providers\<close>

text \<open>
  \<open>steady\<close> reports the state in one key and leaves it alone, and \<open>faulty\<close> is \<open>steady\<close>
  except that the call into \<^verbatim>\<open>chat_manager_\<close> fails.
\<close>

definition steady_fragment :: "manager \<Rightarrow> string \<Rightarrow> string list" where
  \<open>steady_fragment m st = [''"size":'', st]\<close>

definition steady :: "string provider" where
  "steady m st out = Some (out @ steady_fragment m st, st)"

definition faulty :: "string provider" where
  "faulty m st out = (if m = chat_manager then None else steady m st out)"

definition s0 :: "string state" where
  "s0 = \<lparr>td = ''7'', parent = Some 0, calls = []\<rparr>"

text \<open>
  \<open>recording\<close> keeps the list of the managers called so far as its state, and reports
  whether it is the first to be called. \<open>breaking\<close> is \<open>recording\<close> except that the call into
  \<^verbatim>\<open>chat_manager_\<close> fails when exactly three managers have been called before it.
\<close>

definition recording_fragment :: "manager \<Rightarrow> manager list \<Rightarrow> string list" where
  \<open>recording_fragment m seen = [''"first":'', if seen = [] then ''true'' else ''false'']\<close>

definition recording_next :: "manager \<Rightarrow> manager list \<Rightarrow> manager list" where
  "recording_next m seen = seen @ [m]"

definition recording :: "manager list provider" where
  "recording m seen out = Some (out @ recording_fragment m seen, recording_next m seen)"

definition breaking :: "manager list provider" where
  "breaking m seen out =
     (if m = chat_manager \<and> length seen = 3 then None else recording m seen out)"

definition r0 :: "manager list state" where
  "r0 = \<lparr>td = [], parent = Some 0, calls = []\<rparr>"

section \<open>Properties\<close>

subsection \<open>The function body as a sequence of entries\<close>

lemma print_managers_memory_stats_steps:
  "print_managers_memory_stats ms = seq (assembler_steps ms registry)"
  by (simp add: print_managers_memory_stats_def registry_def entry_steps_def entry_key_def)

subsection \<open>Running a sequence of entries\<close>

lemma seq_append:
  "seq (fs @ gs) c = (case seq fs c of Inl e \<Rightarrow> Inl e | Inr c' \<Rightarrow> seq gs c')"
  by (induction fs arbitrary: c) (auto split: sum.splits)

lemma seq_entry_steps:
  "seq (entry_steps ms m) (out, s) =
     (case ms m (td s) (out @ [entry_key m]) of
        None \<Rightarrow> Inl (ProviderFailed m, s\<lparr>calls := calls s @ [(m, out @ [entry_key m])]\<rparr>)
      | Some (out', td') \<Rightarrow>
          Inr (out' @ [''}''], s\<lparr>td := td', calls := calls s @ [(m, out @ [entry_key m])]\<rparr>))"
  by (simp add: entry_steps_def push_back_def memory_stats_def split: option.splits)

lemma seq_assembler_steps_Cons:
  "l \<noteq> [] \<Longrightarrow> seq (assembler_steps ms (m # l)) c =
     (case seq (entry_steps ms m) c of
        Inl e \<Rightarrow> Inl e
      | Inr (out, s) \<Rightarrow> seq (assembler_steps ms l) (out @ ['',''], s))"
  by (cases l) (simp_all add: seq_append push_back_def split: sum.splits)

lemma foldl_append_concat: "foldl (@) a xs = a @ concat xs"
  by (induction xs arbitrary: a) simp_all

lemma get_memory_stats_steps:
  \<open>get_memory_stats ms full promise s =
     (case seq (assembler_steps ms registry) ([''{'', ''"memory_stats":{''], s) of
        Inl (e, s') \<Rightarrow> Inl (e, promise, s')
      | Inr (out, s') \<Rightarrow> Inr (promise @ [\<lparr>debug = concat out @ ''}}''\<rparr>], s'))\<close>
  by (simp add: get_memory_stats_def print_managers_memory_stats_steps push_back_def
      accumulate_def set_value_def foldl_append_concat split: sum.splits)


lemma assembler_completes:
  "completes ms \<Longrightarrow>
   \<exists>out' s'. seq (assembler_steps ms l) (out, s) = Inr (out', s')
     \<and> parent s' = parent s \<and> map fst (calls s') = map fst (calls s) @ l"
proof (induction ms l arbitrary: out s rule: assembler_steps.induct)
  case (1 ms)
  then show ?case by simp
next
  case (2 ms m)
  then show ?case
    by (auto simp: seq_entry_steps completes_def split: option.splits)
next
  case (3 ms m m' rest)
  from "3.prems" obtain o1 t1 where
    c: "ms m (td s) (out @ [entry_key m]) = Some (o1, t1)"
    unfolding completes_def by (metis option.exhaust surj_pair)
  show ?case
    using "3.IH" [OF "3.prems", of "o1 @ [''}''] @ ['','']"
        "s\<lparr>td := t1, calls := calls s @ [(m, out @ [entry_key m])]\<rparr>"]
    by (auto simp del: assembler_steps.simps simp add: seq_assembler_steps_Cons seq_entry_steps c)
qed

lemma entry_entry_key: \<open>entry (manager_name m, f) = entry_key m @ f @ ''}''\<close>
  by (simp add: entry_def entry_key_def)

lemma assembler_contract:
  "contract ms frag \<Longrightarrow>
   \<exists>out' s'. seq (assembler_steps ms l) (out, s) = Inr (out', s')
     \<and> concat out' =
         concat out @ join_commas (map (\<lambda>m. entry (manager_name m, concat (frag m (td s)))) l)
     \<and> td s' = td s"
proof (induction ms l arbitrary: out s rule: assembler_steps.induct)
  case (1 ms)
  then show ?case by simp
next
  case (2 ms m)
  then show ?case
    by (simp add: seq_entry_steps contract_def entry_entry_key)
next
  case (3 ms m m' rest)
  have c: "ms m (td s) (out @ [entry_key m]) =
      Some ((out @ [entry_key m]) @ frag m (td s), td s)"
    using "3.prems" by (simp add: contract_def)
  show ?case
    using "3.IH" [OF "3.prems", of "((out @ [entry_key m]) @ frag m (td s)) @ [''}''] @ ['','']"
        "s\<lparr>td := td s, calls := calls s @ [(m, out @ [entry_key m])]\<rparr>"]
    by (auto simp del: assembler_steps.simps
        simp add: seq_assembler_steps_Cons seq_entry_steps c entry_entry_key)
qed

lemma assembler_appends:
  "appends ms frag nxt \<Longrightarrow>
   \<exists>out' s'. seq (assembler_steps ms l) (out, s) = Inr (out', s')
     \<and> concat out' = concat out @ join_commas (map entry (fragments frag nxt l (td s)))"
proof (induction ms l arbitrary: out s rule: assembler_steps.induct)
  case (1 ms)
  then show ?case by simp
next
  case (2 ms m)
  then show ?case
    by (simp add: seq_entry_steps appends_def entry_entry_key)
next
  case (3 ms m m' rest)
  have c: "ms m (td s) (out @ [entry_key m]) =
      Some ((out @ [entry_key m]) @ frag m (td s), nxt m (td s))"
    using "3.prems" by (simp add: appends_def)
  show ?case
    using "3.IH" [OF "3.prems", of "((out @ [entry_key m]) @ frag m (td s)) @ [''}''] @ ['','']"
        "s\<lparr>td := nxt m (td s), calls := calls s @ [(m, out @ [entry_key m])]\<rparr>"]
    by (auto simp del: assembler_steps.simps
        simp add: seq_assembler_steps_Cons seq_entry_steps c entry_entry_key)
qed

lemma assembler_read_only:
  "read_only ms \<Longrightarrow>
   \<exists>out' s'. seq (assembler_steps ms l) (out, s) = Inr (out', s')
     \<and> td s' = td s \<and> parent s' = parent s"
proof (induction ms l arbitrary: out s rule: assembler_steps.induct)
  case (1 ms)
  then show ?case by simp
next
  case (2 ms m)
  from "2.prems" obtain o1 where "ms m (td s) (out @ [entry_key m]) = Some (o1, td s)"
    unfolding read_only_def by blast
  then show ?case
    by (simp add: seq_entry_steps)
next
  case (3 ms m m' rest)
  from "3.prems" obtain o1 where c: "ms m (td s) (out @ [entry_key m]) = Some (o1, td s)"
    unfolding read_only_def by blast
  show ?case
    using "3.IH" [OF "3.prems", of "o1 @ [''}''] @ ['','']"
        "s\<lparr>td := td s, calls := calls s @ [(m, out @ [entry_key m])]\<rparr>"]
    by (auto simp del: assembler_steps.simps simp add: seq_assembler_steps_Cons seq_entry_steps c)
qed

text \<open>
  Providers with a known effect on the state: each one of the list is called once, in the
  order of the list.
\<close>

lemma assembler_acts:
  "\<forall>m\<in>set l. acts ms nxt m \<Longrightarrow>
   \<exists>out' s'. seq (assembler_steps ms l) (out, s) = Inr (out', s')
     \<and> td s' = fold nxt l (td s) \<and> parent s' = parent s
     \<and> map fst (calls s') = map fst (calls s) @ l"
proof (induction ms l arbitrary: out s rule: assembler_steps.induct)
  case (1 ms)
  then show ?case by simp
next
  case (2 ms m)
  from "2.prems" obtain o1 where
    "ms m (td s) (out @ [entry_key m]) = Some (o1, nxt m (td s))"
    unfolding acts_def by fastforce
  then show ?case
    by (simp add: seq_entry_steps)
next
  case (3 ms m m' rest)
  from "3.prems" obtain o1 where
    c: "ms m (td s) (out @ [entry_key m]) = Some (o1, nxt m (td s))"
    unfolding acts_def by fastforce
  from "3.prems" have r: "\<forall>k\<in>set (m' # rest). acts ms nxt k"
    by simp
  show ?case
    using "3.IH" [OF r, of "o1 @ [''}''] @ ['','']"
        "s\<lparr>td := nxt m (td s), calls := calls s @ [(m, out @ [entry_key m])]\<rparr>"]
    by (auto simp del: assembler_steps.simps simp add: seq_assembler_steps_Cons seq_entry_steps c)
qed

text \<open>
  A provider that fails in the state in which it is called ends the sequence at its call:
  the providers before it have been called, those after it have not.
\<close>

lemma assembler_fails_at:
  "\<forall>m\<in>set pre. acts ms nxt m \<Longrightarrow> \<forall>out. ms m0 (fold nxt pre (td s)) out = None \<Longrightarrow>
   \<exists>s'. seq (assembler_steps ms (pre @ m0 # post)) (out, s) = Inl (ProviderFailed m0, s')
     \<and> td s' = fold nxt pre (td s) \<and> parent s' = parent s
     \<and> map fst (calls s') = map fst (calls s) @ pre @ [m0]"
proof (induction pre arbitrary: out s)
  case Nil
  then show ?case
    by (cases post) (simp_all del: assembler_steps.simps
        add: assembler_steps.simps(2) seq_assembler_steps_Cons seq_entry_steps)
next
  case (Cons a pre)
  from Cons.prems(1) obtain o1 where
    c: "ms a (td s) (out @ [entry_key a]) = Some (o1, nxt a (td s))"
    unfolding acts_def by fastforce
  let ?s = "s\<lparr>td := nxt a (td s), calls := calls s @ [(a, out @ [entry_key a])]\<rparr>"
  from Cons.prems(1) have r: "\<forall>m\<in>set pre. acts ms nxt m"
    by simp
  from Cons.prems(2) have f: "\<forall>out. ms m0 (fold nxt pre (td ?s)) out = None"
    by simp
  show ?case
    using Cons.IH [OF r f, of "(o1 @ [''}'']) @ ['','']"]
    by (auto simp del: assembler_steps.simps simp add: seq_assembler_steps_Cons seq_entry_steps c)
qed

text \<open>What a sequence of entries emits depends on the state only through \<open>td\<close>.\<close>

lemma assembler_depends_on_td:
  "seq (assembler_steps ms l) (out, s) = Inr (out', s') \<Longrightarrow> td s2 = td s \<Longrightarrow>
   \<exists>s2'. seq (assembler_steps ms l) (out, s2) = Inr (out', s2') \<and> td s2' = td s'"
proof (induction ms l arbitrary: out s s2 rule: assembler_steps.induct)
  case (1 ms)
  then show ?case by simp
next
  case (2 ms m)
  then show ?case
    by (auto simp: seq_entry_steps split: option.splits)
next
  case (3 ms m m' rest)
  from "3.prems"(1) obtain o1 t1 where
    c: "ms m (td s) (out @ [entry_key m]) = Some (o1, t1)"
    by (auto simp del: assembler_steps.simps
        simp add: seq_assembler_steps_Cons seq_entry_steps split: option.splits)
  let ?k = "out @ [entry_key m]"
  have r: "seq (assembler_steps ms (m' # rest))
      ((o1 @ [''}'']) @ ['',''], s\<lparr>td := t1, calls := calls s @ [(m, ?k)]\<rparr>) = Inr (out', s')"
    using "3.prems"(1)
    by (simp del: assembler_steps.simps add: seq_assembler_steps_Cons seq_entry_steps c)
  have "td (s2\<lparr>td := t1, calls := calls s2 @ [(m, ?k)]\<rparr>) =
      td (s\<lparr>td := t1, calls := calls s @ [(m, ?k)]\<rparr>)"
    by simp
  from "3.IH" [OF r this] show ?case
    using "3.prems"(2)
    by (simp del: assembler_steps.simps add: seq_assembler_steps_Cons seq_entry_steps c)
qed

subsection \<open>The registry and the envelope\<close>

lemma envelope_single: \<open>envelope [(''x'', ''"a":1'')] = ''{"memory_stats":{"x":{"a":1}}}''\<close>
  by (simp add: envelope_def entry_def)

lemma envelope_pair:
  \<open>envelope [(''x'', ''"a":1''), (''y'', [])] = ''{"memory_stats":{"x":{"a":1},"y":{}}}''\<close>
  by (simp add: envelope_def entry_def)

lemma registry_distinct_names: "distinct (map manager_name registry)"
  by (simp add: registry_def)

lemma registry_split:
  "registry =
     [file_manager, business_connection_manager, channel_recommendation_manager]
     @ chat_manager # drop 4 registry"
  by (simp add: registry_def)

subsection \<open>The example providers\<close>

lemma steady_contract: "contract steady steady_fragment"
  by (simp add: contract_def steady_def)

lemma steady_completes: "completes steady"
  by (simp add: completes_def steady_def)

lemma steady_read_only: "read_only steady"
  by (simp add: read_only_def steady_def)

lemma steady_acts: "acts steady (\<lambda>m st. st) m"
  by (simp add: acts_def steady_def)

lemma faulty_acts: "m \<noteq> chat_manager \<Longrightarrow> acts faulty (\<lambda>m st. st) m"
  by (simp add: acts_def faulty_def steady_def)

lemma recording_appends: "appends recording recording_fragment recording_next"
  by (simp add: appends_def recording_def)

lemma recording_completes: "completes recording"
  by (simp add: completes_def recording_def)

lemma recording_acts: "acts recording recording_next m"
  by (simp add: acts_def recording_def)

lemma breaking_acts: "m \<noteq> chat_manager \<Longrightarrow> acts breaking recording_next m"
  by (simp add: acts_def breaking_def recording_def)

lemma fold_recording_next: "fold recording_next l seen = seen @ l"
  by (induction l arbitrary: seen) (simp_all add: recording_next_def)

text \<open>The run with \<open>faulty\<close> ends at the fourth call, whatever the flag and the promise.\<close>

lemma faulty_run:
  "\<exists>s'. get_memory_stats faulty full promise s0 = Inl (ProviderFailed chat_manager, promise, s')
     \<and> map fst (calls s') =
         [file_manager, business_connection_manager, channel_recommendation_manager, chat_manager]"
proof -
  let ?pre = "[file_manager, business_connection_manager, channel_recommendation_manager]"
  have a: "\<forall>m\<in>set ?pre. acts faulty (\<lambda>m st. st) m"
    by (simp add: faulty_acts)
  have f: "\<forall>out. faulty chat_manager (fold (\<lambda>m st. st) ?pre (td s0)) out = None"
    by (simp add: faulty_def)
  from assembler_fails_at [OF a f, of "drop 4 registry" \<open>[''{'', ''"memory_stats":{'']\<close>]
  show ?thesis
    unfolding registry_split [symmetric]
    by (auto simp: get_memory_stats_steps s0_def)
qed

text \<open>The run with \<open>breaking\<close> ends there as well, and three providers have acted.\<close>

lemma breaking_run:
  "\<exists>s'. get_memory_stats breaking full promise r0 = Inl (ProviderFailed chat_manager, promise, s')
     \<and> td s' = [file_manager, business_connection_manager, channel_recommendation_manager]
     \<and> map fst (calls s') =
         [file_manager, business_connection_manager, channel_recommendation_manager, chat_manager]"
proof -
  let ?pre = "[file_manager, business_connection_manager, channel_recommendation_manager]"
  have a: "\<forall>m\<in>set ?pre. acts breaking recording_next m"
    by (simp add: breaking_acts)
  have f: "\<forall>out. breaking chat_manager (fold recording_next ?pre (td r0)) out = None"
    by (simp add: breaking_def recording_next_def r0_def)
  from assembler_fails_at [OF a f, of "drop 4 registry" \<open>[''{'', ''"memory_stats":{'']\<close>]
  show ?thesis
    unfolding registry_split [symmetric]
    by (auto simp: get_memory_stats_steps r0_def recording_next_def)
qed


lemma recording_fragments_head:
  \<open>take 2 (fragments recording_fragment recording_next registry []) =
     [(''file_manager_'', ''"first":true''), (''business_connection_manager_'', ''"first":false'')]\<close>
  by (simp add: registry_def recording_fragment_def recording_next_def)

section \<open>The claims\<close>

text \<open>
  Claim C1. For providers that keep to their contract, in every state, the string
  delivered by \<open>get_memory_stats\<close> is the envelope \<^verbatim>\<open>{"memory_stats":{\<close> ... \<^verbatim>\<open>}}\<close> around one
  entry \<^verbatim>\<open>"<name>":{<fragment>}\<close> per manager of the registry, in the order of the registry,
  with the name of the member as the key, the fragment being what that manager appended,
  a single comma between two entries and none after the last; and no name occurs twice.
\<close>

theorem get_memory_stats_envelope:
  assumes "contract ms frag"
  shows "(\<exists>s'. get_memory_stats ms full promise s =
            Inr (promise @
                 [\<lparr>debug = envelope (map (\<lambda>m. (manager_name m, concat (frag m (td s)))) registry)\<rparr>],
                 s'))
         \<and> distinct (map manager_name registry)"
proof -
  from assembler_contract [OF assms, of registry \<open>[''{'', ''"memory_stats":{'']\<close> s]
  obtain out' s' where
    r: \<open>seq (assembler_steps ms registry) ([''{'', ''"memory_stats":{''], s) = Inr (out', s')\<close>
    and c: \<open>concat out' = concat [''{'', ''"memory_stats":{''] @
      join_commas (map (\<lambda>m. entry (manager_name m, concat (frag m (td s)))) registry)\<close>
    by blast
  have "get_memory_stats ms full promise s =
      Inr (promise @
           [\<lparr>debug = envelope (map (\<lambda>m. (manager_name m, concat (frag m (td s)))) registry)\<rparr>], s')"
    by (simp add: get_memory_stats_steps r c envelope_def o_def)
  then show ?thesis
    using registry_distinct_names by blast
qed

text \<open>Claim C1 at the provider \<open>steady\<close> and the state \<open>s0\<close>.\<close>

theorem get_memory_stats_envelope_witness:
  \<open>contract steady steady_fragment \<and>
   (\<exists>s'. get_memory_stats steady True [] s0 =
      Inr ([\<lparr>debug = envelope (map (\<lambda>m. (manager_name m, ''"size":7'')) registry)\<rparr>], s'))\<close>
  using get_memory_stats_envelope [OF steady_contract, of True "[]" s0] steady_contract
  by (simp add: steady_fragment_def s0_def)

text \<open>
  Claim C2, as stated, has the promise resolved in every call. With \<open>faulty\<close>, whose call
  into \<^verbatim>\<open>chat_manager_\<close> fails, the call ends with that failure and the promise, empty
  before the call, is still empty after it: it has been resolved zero times.
\<close>

theorem resolved_once_counterexample:
  "failure (get_memory_stats faulty False [] s0) = Some (ProviderFailed chat_manager)
   \<and> delivered (get_memory_stats faulty False [] s0) = []"
  using faulty_run [of False "[]"]
  by (auto simp: failure_def delivered_def)

text \<open>
  Claim C2, as amended. For every value of \<open>full\<close> and every state: if every call of a
  provider returns, the call gives the promise exactly one value (the promise holds what
  it held before, and one more); and if every call of a provider returns having only
  appended its fragment to the vector, whatever it does to the state, the \<open>debug\<close> member of
  that value is the envelope around the entries of the managers of the registry, in the
  order of the registry, each fragment taken in the state in which its provider is called.
\<close>

theorem get_memory_stats_resolves_once:
  "(completes ms \<longrightarrow>
      (\<exists>v s'. get_memory_stats ms full promise s = Inr (promise @ [v], s')))
   \<and> (appends ms frag nxt \<longrightarrow>
      (\<exists>s'. get_memory_stats ms full promise s =
         Inr (promise @ [\<lparr>debug = envelope (fragments frag nxt registry (td s))\<rparr>], s')))"
proof (intro conjI impI)
  assume "completes ms"
  from assembler_completes [OF this, of registry \<open>[''{'', ''"memory_stats":{'']\<close> s]
  obtain out' s' where
    \<open>seq (assembler_steps ms registry) ([''{'', ''"memory_stats":{''], s) = Inr (out', s')\<close>
    by blast
  then show "\<exists>v s'. get_memory_stats ms full promise s = Inr (promise @ [v], s')"
    by (simp add: get_memory_stats_steps)
next
  assume "appends ms frag nxt"
  from assembler_appends [OF this, of registry \<open>[''{'', ''"memory_stats":{'']\<close> s]
  obtain out' s' where
    r: \<open>seq (assembler_steps ms registry) ([''{'', ''"memory_stats":{''], s) = Inr (out', s')\<close>
    and c: \<open>concat out' = concat [''{'', ''"memory_stats":{''] @
      join_commas (map entry (fragments frag nxt registry (td s)))\<close>
    by blast
  have "get_memory_stats ms full promise s =
      Inr (promise @ [\<lparr>debug = envelope (fragments frag nxt registry (td s))\<rparr>], s')"
    by (simp add: get_memory_stats_steps r c envelope_def)
  then show "\<exists>s'. get_memory_stats ms full promise s =
      Inr (promise @ [\<lparr>debug = envelope (fragments frag nxt registry (td s))\<rparr>], s')"
    by blast
qed

text \<open>
  Claim C2, as amended, at the provider \<open>recording\<close>, which changes the state at every
  call, and the state \<open>r0\<close>.
\<close>

theorem get_memory_stats_resolves_once_witness:
  "(\<exists>v s'. get_memory_stats recording False [] r0 = Inr ([v], s'))
   \<and> (\<exists>s'. get_memory_stats recording False [] r0 =
         Inr ([\<lparr>debug = envelope (fragments recording_fragment recording_next registry [])\<rparr>], s'))"
  using get_memory_stats_resolves_once
      [of recording False "[]" r0 recording_fragment recording_next]
    recording_completes recording_appends
  by (simp add: r0_def)

text \<open>
  Claim C3, as stated, has every provider called in every call. With \<open>breaking\<close>, whose
  call into \<^verbatim>\<open>chat_manager_\<close> fails when it is the fourth, the call ends at that call: three
  providers have acted on the state, four calls have been made, and the 58 managers after
  \<^verbatim>\<open>chat_manager_\<close> are not called.
\<close>

theorem invoked_once_counterexample:
  "failure (get_memory_stats breaking True [] r0) = Some (ProviderFailed chat_manager)
   \<and> td (final_state (get_memory_stats breaking True [] r0)) =
       [file_manager, business_connection_manager, channel_recommendation_manager]
   \<and> map fst (calls (final_state (get_memory_stats breaking True [] r0))) =
       [file_manager, business_connection_manager, channel_recommendation_manager, chat_manager]"
  using breaking_run [of True "[]"]
  by (auto simp: failure_def final_state_def)

text \<open>
  Claim C3, as amended. Within one call of \<open>get_memory_stats\<close> in which every call of a
  provider returns, the effect of a provider on the state being \<open>nxt\<close>, every manager of the
  registry is called exactly once, in the order of the registry, one at a time: the state
  after the call is the state before it with the effects of the managers of the registry
  applied one after the other, once each, in that order; the calls made are exactly the
  managers of the registry, in that order; and no manager occurs twice in the registry.
\<close>

theorem providers_invoked_once_in_order:
  assumes "\<forall>m. acts ms nxt m"
  shows "\<exists>promise' s'. get_memory_stats ms full promise s = Inr (promise', s')
      \<and> td s' = fold nxt registry (td s)
      \<and> map fst (calls s') = map fst (calls s) @ registry \<and> distinct registry"
proof -
  from assms have "\<forall>m\<in>set registry. acts ms nxt m"
    by simp
  from assembler_acts [OF this, of \<open>[''{'', ''"memory_stats":{'']\<close> s]
  obtain out' s' where
    r: \<open>seq (assembler_steps ms registry) ([''{'', ''"memory_stats":{''], s) = Inr (out', s')\<close>
    and t: "td s' = fold nxt registry (td s)"
    and l: "map fst (calls s') = map fst (calls s) @ registry"
    by blast
  have "distinct registry"
    using registry_distinct_names by (simp add: distinct_map)
  with t l show ?thesis
    by (simp add: get_memory_stats_steps r)
qed

text \<open>
  Claim C3, as amended, at the provider \<open>recording\<close>, whose state is the list of the managers
  called so far: after the call from \<open>r0\<close> that list is the registry.
\<close>

theorem providers_invoked_once_in_order_witness:
  "\<exists>promise' s'. get_memory_stats recording True [] r0 = Inr (promise', s')
     \<and> td s' = registry \<and> map fst (calls s') = registry \<and> distinct registry"
proof -
  have "\<forall>m. acts recording recording_next m"
    by (simp add: recording_acts)
  from providers_invoked_once_in_order [OF this, of True "[]" r0] show ?thesis
    by (simp add: fold_recording_next r0_def)
qed

text \<open>
  Claim C4. If a call of \<open>get_memory_stats\<close> returns and has left the state of the providers
  as it was, a second call right after it returns as well and delivers the same value,
  hence the same string, as the first.
\<close>

theorem get_memory_stats_idempotent:
  assumes "get_memory_stats ms full promise s = Inr (promise1, s1)"
    and "td s1 = td s"
  shows "\<exists>v s2. promise1 = promise @ [v]
      \<and> get_memory_stats ms full promise2 s1 = Inr (promise2 @ [v], s2)"
proof -
  from assms(1) obtain out where
    r: \<open>seq (assembler_steps ms registry) ([''{'', ''"memory_stats":{''], s) = Inr (out, s1)\<close>
    and p: "promise1 = promise @ [\<lparr>debug = concat out @ ''}}''\<rparr>]"
    by (auto simp: get_memory_stats_steps split: sum.splits)
  from assembler_depends_on_td [OF r assms(2)] obtain s2 where
    \<open>seq (assembler_steps ms registry) ([''{'', ''"memory_stats":{''], s1) = Inr (out, s2)\<close>
    by blast
  then have "get_memory_stats ms full promise2 s1 =
      Inr (promise2 @ [\<lparr>debug = concat out @ ''}}''\<rparr>], s2)"
    by (simp add: get_memory_stats_steps)
  with p show ?thesis by blast
qed


text \<open>Claim C4 at the provider \<open>steady\<close> and the state \<open>s0\<close>.\<close>

theorem get_memory_stats_idempotent_witness:
  "\<exists>promise1 s1. get_memory_stats steady True [] s0 = Inr (promise1, s1) \<and> td s1 = td s0
     \<and> (\<exists>v s2. promise1 = [] @ [v] \<and> get_memory_stats steady True [] s1 = Inr ([] @ [v], s2))"
proof -
  from assembler_read_only [OF steady_read_only, of registry \<open>[''{'', ''"memory_stats":{'']\<close> s0]
  obtain out' s1 where
    \<open>seq (assembler_steps steady registry) ([''{'', ''"memory_stats":{''], s0) = Inr (out', s1)\<close>
    and u: "td s1 = td s0"
    by blast
  then have g: "get_memory_stats steady True [] s0 = Inr ([\<lparr>debug = concat out' @ ''}}''\<rparr>], s1)"
    by (simp add: get_memory_stats_steps)
  from get_memory_stats_idempotent [OF g u, of "[]"] g u show ?thesis
    by blast
qed


text \<open>
  Claim C6, as stated, has the flag passed on to every provider. The calls that the
  providers receive, arguments included, are the same with \<open>full\<close> true and with \<open>full\<close>
  false, and there are such calls.
\<close>

theorem full_forwarded_counterexample:
  "invocations (get_memory_stats steady True [] s0) =
     invocations (get_memory_stats steady False [] s0)
   \<and> invocations (get_memory_stats steady True [] s0) \<noteq> None"
proof -
  from assembler_completes [OF steady_completes, of registry \<open>[''{'', ''"memory_stats":{'']\<close> s0]
  obtain out' s' where
    \<open>seq (assembler_steps steady registry) ([''{'', ''"memory_stats":{''], s0) = Inr (out', s')\<close>
    by blast
  then show ?thesis
    by (simp add: get_memory_stats_steps invocations_def)
qed

text \<open>
  Claim C6, as amended. The flag \<open>full\<close> is accepted and not used: the calls into the
  managers and the arguments they receive are the same for every value of \<open>full\<close>.
\<close>

theorem full_not_forwarded:
  "invocations (get_memory_stats ms full promise s) =
     invocations (get_memory_stats ms full' promise s)"
  by (simp add: get_memory_stats_def)

text \<open>
  Claim C7, as stated, keeps the entries of the other providers when one provider fails.
  With \<open>faulty\<close>, whose call into \<^verbatim>\<open>chat_manager_\<close> fails, the call ends with that failure
  after four calls and delivers nothing.
\<close>

theorem fault_isolation_counterexample:
  "failure (get_memory_stats faulty True [] s0) = Some (ProviderFailed chat_manager)
   \<and> delivered (get_memory_stats faulty True [] s0) = []
   \<and> map fst (calls (final_state (get_memory_stats faulty True [] s0))) =
       [file_manager, business_connection_manager, channel_recommendation_manager, chat_manager]"
  using faulty_run [of True "[]"]
  by (auto simp: failure_def delivered_def final_state_def)

text \<open>
  Claim C7, as amended. The calls into the providers are not guarded. Let \<open>m0\<close> be a manager
  of the registry, \<open>pre\<close> the managers before it and \<open>post\<close> those after it. If the calls
  into the managers of \<open>pre\<close> return, their effect on the state being \<open>nxt\<close>, and the call
  into \<open>m0\<close> fails in the state in which it is made, then \<open>get_memory_stats\<close> ends at that
  call with the failure of \<open>m0\<close>; the promise is left as it was, so no report is delivered;
  the calls made are those into the managers of \<open>pre\<close>, in order, and then the one into
  \<open>m0\<close>, so no manager of \<open>post\<close> is called; the state is as the managers of \<open>pre\<close> have left
  it; and \<^verbatim>\<open>parent_\<close> is unchanged.
\<close>

theorem provider_failure_aborts:
  assumes "registry = pre @ m0 # post"
    and "\<forall>m\<in>set pre. acts ms nxt m"
    and "\<forall>out. ms m0 (fold nxt pre (td s)) out = None"
  shows "\<exists>s'. get_memory_stats ms full promise s = Inl (ProviderFailed m0, promise, s')
      \<and> map fst (calls s') = map fst (calls s) @ pre @ [m0]
      \<and> td s' = fold nxt pre (td s) \<and> parent s' = parent s"
  using assembler_fails_at [OF assms(2,3), of post \<open>[''{'', ''"memory_stats":{'']\<close>]
  unfolding assms(1) [symmetric]
  by (auto simp: get_memory_stats_steps)

text \<open>
  Claim C7, as amended, at the provider \<open>breaking\<close> and the state \<open>r0\<close>: the call into
  \<^verbatim>\<open>chat_manager_\<close> fails only in the state in which it is made here, after the three
  managers before it.
\<close>

theorem provider_failure_aborts_witness:
  "\<exists>s'. get_memory_stats breaking False [] r0 = Inl (ProviderFailed chat_manager, [], s')
     \<and> map fst (calls s') =
         [file_manager, business_connection_manager, channel_recommendation_manager, chat_manager]
     \<and> td s' = [file_manager, business_connection_manager, channel_recommendation_manager]
     \<and> parent s' = Some 0"
proof -
  let ?pre = "[file_manager, business_connection_manager, channel_recommendation_manager]"
  have a: "\<forall>m\<in>set ?pre. acts breaking recording_next m"
    by (simp add: breaking_acts)
  have f: "\<forall>out. breaking chat_manager (fold recording_next ?pre (td r0)) out = None"
    by (simp add: breaking_def recording_next_def r0_def)
  from provider_failure_aborts [OF registry_split a f, of False "[]"] show ?thesis
    by (simp add: r0_def recording_next_def)
qed

text \<open>
  Claim C8. Whatever \<^verbatim>\<open>is_bot\<close> answers, \<open>get_current_state\<close> returns the sequence \<open>updates\<close> it
  was given, with nothing appended, and the state unchanged.
\<close>

theorem get_current_state_appends_nothing:
  "get_current_state is_bot s updates = (updates, s)"
  by (simp add: get_current_state_def)

text \<open>
  Claim C9. When the providers only read, a call of \<open>get_memory_stats\<close> returns and leaves
  the state of \<^verbatim>\<open>Td\<close> with all its managers, and the member \<^verbatim>\<open>parent_\<close> of the aggregator,
  as they were.
\<close>

theorem get_memory_stats_reads_only:
  assumes "read_only ms"
  shows "\<exists>promise' s'. get_memory_stats ms full promise s = Inr (promise', s')
      \<and> td s' = td s \<and> parent s' = parent s"
proof -
  from assembler_read_only [OF assms, of registry \<open>[''{'', ''"memory_stats":{'']\<close> s]
  obtain out' s' where
    \<open>seq (assembler_steps ms registry) ([''{'', ''"memory_stats":{''], s) = Inr (out', s')\<close>
    and "td s' = td s" and "parent s' = parent s"
    by blast
  then show ?thesis
    by (simp add: get_memory_stats_steps)
qed

text \<open>Claim C9 at the provider \<open>steady\<close> and the state \<open>s0\<close>.\<close>

theorem get_memory_stats_reads_only_witness:
  "read_only steady \<and>
   (\<exists>promise' s'. get_memory_stats steady True [] s0 = Inr (promise', s')
      \<and> td s' = ''7'' \<and> parent s' = Some 0)"
  using get_memory_stats_reads_only [OF steady_read_only, of True "[]" s0] steady_read_only
  by (simp add: s0_def)

text \<open>
  Claim C10. In the same state and with the same providers, the call with \<open>full\<close> true and
  the call with \<open>full\<close> false have the same result, so they deliver the same string.
\<close>

theorem report_independent_of_full:
  "get_memory_stats ms True promise s = get_memory_stats ms False promise s"
  by (simp add: get_memory_stats_def)

end
